theory Spec2Isabelle
  imports Complex_Main "HOL-Library.Sublist"
begin

section \<open>Numbers, rounding and statistics\<close>

text \<open>
  Prices, percentages and scores are Python floats in the source.  They are modelled here as
  real numbers, so every arithmetic operation is exact; the decimal constants of the source
  (\<open>0.13\<close>, \<open>7.00\<close>, \<open>0.40\<close>, \<open>0.87\<close>, ...) are the corresponding fractions.  Counts
  (\<open>total_sold\<close>, \<open>total_completed\<close>, \<open>total_active\<close>) are Python ints and are modelled
  as \<open>int\<close>.

  \<open>round(x)\<close> of Python rounds to the nearest integer and resolves a tie towards the even
  neighbour; \<open>round(x, n)\<close> does the same at \<open>n\<close> decimal places.
\<close>

datatype py_error = ZeroDivisionError | TypeError | RequestError

definition py_round :: "real \<Rightarrow> int" where
  "py_round x =
     (let f = \<lfloor>x\<rfloor>; d = x - of_int f in
      if d < 1 / 2 then f
      else if d > 1 / 2 then f + 1
      else if even f then f else f + 1)"

definition round_nd :: "nat \<Rightarrow> real \<Rightarrow> real" where
  "round_nd n x = of_int (py_round (x * 10 ^ n)) / 10 ^ n"

text \<open>
  \<open>statistics.mean\<close>, \<open>statistics.median\<close> and \<open>statistics.stdev\<close> (the sample standard
  deviation).  The source only calls them on lists that are long enough (non-empty for the
  first two, at least three elements for the last), so the empty cases are never evaluated.
\<close>

definition statistics_mean :: "real list \<Rightarrow> real" where
  "statistics_mean xs = sum_list xs / real (length xs)"

definition statistics_median :: "real list \<Rightarrow> real" where
  "statistics_median xs =
     (let data = sort xs; n = length data in
      if n mod 2 = 1 then data ! (n div 2)
      else (data ! (n div 2 - 1) + data ! (n div 2)) / 2)"

definition statistics_variance :: "real list \<Rightarrow> real" where
  "statistics_variance xs =
     (let m = statistics_mean xs in
      sum_list (map (\<lambda>x. (x - m)\<^sup>2) xs) / real (length xs - 1))"

definition statistics_stdev :: "real list \<Rightarrow> real" where
  "statistics_stdev xs = sqrt (statistics_variance xs)"

section \<open>Data model\<close>

text \<open>The dictionary every source adapter produces for one listing.\<close>

record listing =
  title :: string
  price :: "real option"
  currency :: string
  condition :: string
  image_url :: string
  item_url :: string
  seller :: string
  source :: string
  listing_type :: string
  sold_date :: string

text \<open>The dictionaries returned by \<open>pricing.py\<close>.  A key that is absent or \<open>None\<close> is \<open>None\<close>.\<close>

record sell_through_info =
  sell_through_pct :: "real option"
  avg_days_to_sell :: "real option"
  liquidity :: string
  total_sold_recently :: int
  total_completed_recently :: int
  total_active_supply :: int
  supply_demand_note :: "string option"

record recommendation_info =
  max_buy_price :: "real option"
  estimated_sell_price :: "real option"
  net_after_fees :: "real option"
  estimated_profit :: "real option"
  roi_percent :: "real option"
  confidence :: string
  rec_note :: "string option"
  spread_warning :: "string option"
  liquidity_warning :: "string option"
  assumptions :: "(real \<times> real \<times> real) option"

record deal_score_info =
  score :: int
  verdict :: string
  color :: string
  summary :: string
  breakdown :: "(int \<times> int \<times> int \<times> int) option"

record price_stats =
  average :: "real option"
  median :: "real option"
  low :: "real option"
  high :: "real option"

record market_summary =
  active_listings_count :: nat
  sold_listings_count :: nat
  total_active_on_market :: int
  asking_price :: price_stats
  sold_price :: price_stats
  sell_through :: sell_through_info
  recommendation :: recommendation_info
  deal_score :: deal_score_info

text \<open>The em dash of the source's messages, as its UTF-8 bytes.\<close>

definition em_dash :: string where
  "em_dash = [CHR 0xE2, CHR 0x80, CHR 0x94]"

section \<open>\<open>pricing.py\<close>: sell-through\<close>

text \<open>
  The age of a sold listing depends on the clock and on \<open>datetime.fromisoformat\<close>; both are
  the parameter \<open>days_ago\<close>, which gives \<open>(now - sold_dt).days\<close> for a date string that
  parses and \<open>None\<close> for one that raises \<open>ValueError\<close> or \<open>TypeError\<close>.
\<close>

fun day_diffs :: "(string \<Rightarrow> int option) \<Rightarrow> listing list \<Rightarrow> int list" where
  "day_diffs days_ago [] = []"
| "day_diffs days_ago (item # items) =
     (let sd = sold_date item in
      if sd = [] then day_diffs days_ago items
      else (case days_ago sd of
              None \<Rightarrow> day_diffs days_ago items
            | Some diff \<Rightarrow>
                if 0 \<le> diff \<and> diff \<le> 180 then diff # day_diffs days_ago items
                else day_diffs days_ago items))"

definition calc_liquidity :: "real option \<Rightarrow> int \<Rightarrow> string" where
  "calc_liquidity str_pct total_sold =
     (case str_pct of
        Some p \<Rightarrow>
          if p \<ge> 60 then ''hot''
          else if p \<ge> 35 then ''steady''
          else if p \<ge> 15 then ''slow''
          else ''dead''
      | None \<Rightarrow> if total_sold > 10 then ''steady'' else ''unknown'')"

definition calc_supply_demand :: "int \<Rightarrow> int \<Rightarrow> string option" where
  "calc_supply_demand total_active total_sold =
     (if total_active \<noteq> 0 \<and> total_sold \<noteq> 0 then
        (let ratio = real_of_int total_sold / real_of_int (max total_active 1) in
         if ratio > 15 / 10 then Some ''High demand, low supply''
         else if ratio > 7 / 10 then Some ''Balanced market''
         else if ratio > 3 / 10 then Some ''Moderate supply''
         else Some (''Oversaturated '' @ em_dash @ '' lots of competition''))
      else None)"

definition calc_sell_through ::
  "(string \<Rightarrow> int option) \<Rightarrow> listing list \<Rightarrow> int \<Rightarrow> int \<Rightarrow> int \<Rightarrow> sell_through_info" where
  "calc_sell_through days_ago sold_listings total_sold total_completed total_active =
     (let str_pct =
            (if total_completed > 0
             then Some (round_nd 1 ((real_of_int total_sold / real_of_int total_completed) * 100))
             else None);
          diffs = day_diffs days_ago sold_listings;
          avg_days =
            (if diffs \<noteq> [] then Some (round_nd 1 (statistics_mean (map real_of_int diffs)))
             else None)
      in \<lparr> sell_through_pct = str_pct,
           avg_days_to_sell = avg_days,
           liquidity = calc_liquidity str_pct total_sold,
           total_sold_recently = total_sold,
           total_completed_recently = total_completed,
           total_active_supply = total_active,
           supply_demand_note = calc_supply_demand total_active total_sold \<rparr>)"

section \<open>\<open>pricing.py\<close>: recommendation\<close>

definition no_recommendation :: recommendation_info where
  "no_recommendation =
     \<lparr> max_buy_price = None, estimated_sell_price = None, net_after_fees = None,
       estimated_profit = None, roi_percent = None, confidence = ''low'',
       rec_note = Some ''Not enough data to make a recommendation'',
       spread_warning = None, liquidity_warning = None, assumptions = None \<rparr>"

definition selling_fees_pct :: real where "selling_fees_pct = 13 / 100"
definition avg_shipping :: real where "avg_shipping = 7"
definition target_roi :: real where "target_roi = 40 / 100"

definition calc_confidence :: "real list \<Rightarrow> string" where
  "calc_confidence sold_prices =
     (if length sold_prices \<ge> 10 then ''high''
      else if length sold_prices \<ge> 5 then ''medium''
      else ''low'')"

text \<open>
  \<open>_calculate_recommendation\<close>.  \<open>not reference_price\<close> holds for \<open>None\<close> and for \<open>0.0\<close>.
  The division \<open>stdev / mean\<close> raises \<open>ZeroDivisionError\<close> when the mean is zero.
  \<open>max_buy\<close> and \<open>estimated_profit\<close> are reassigned by the two penalty steps; each step is a
  pair here.
\<close>

definition calculate_recommendation ::
  "real option \<Rightarrow> real list \<Rightarrow> sell_through_info \<Rightarrow> py_error + recommendation_info" where
  "calculate_recommendation reference_price sold_prices st =
     (case reference_price of
        None \<Rightarrow> Inr no_recommendation
      | Some r \<Rightarrow>
          if r = 0 then Inr no_recommendation
          else
            (let net = r * (1 - selling_fees_pct) - avg_shipping;
                 max_buy0 = net / (1 + target_roi);
                 profit0 = net - max_buy0
             in if length sold_prices \<ge> 3 \<and> statistics_mean sold_prices = 0
                then Inl ZeroDivisionError
                else
                  (let spread =
                         (length sold_prices \<ge> 3 \<and>
                          statistics_stdev sold_prices / statistics_mean sold_prices > 5 / 10);
                       (max_buy1, profit1) =
                         (if spread then (max_buy0 * (8 / 10), net - max_buy0 * (8 / 10))
                          else (max_buy0, profit0));
                       (max_buy2, profit2) =
                         (if liquidity st = ''dead''
                          then (max_buy1 * (6 / 10), net - max_buy1 * (6 / 10))
                          else if liquidity st = ''slow''
                          then (max_buy1 * (85 / 100), net - max_buy1 * (85 / 100))
                          else (max_buy1, profit1))
                   in Inr
                     \<lparr> max_buy_price = Some (round_nd 2 (max max_buy2 0)),
                       estimated_sell_price = Some (round_nd 2 r),
                       net_after_fees = Some (round_nd 2 net),
                       estimated_profit = Some (round_nd 2 (max profit2 0)),
                       roi_percent =
                         Some (if max_buy2 > 0 then round_nd 1 ((profit2 / max_buy2) * 100)
                               else 0),
                       confidence = calc_confidence sold_prices,
                       rec_note = None,
                       spread_warning =
                         (if spread
                          then Some (''High price variance '' @ em_dash @
                                 '' condition and exact model matter a lot. Be cautious.'')
                          else None),
                       liquidity_warning =
                         (if liquidity st = ''dead''
                          then Some ''Very low sell-through. This item may sit for months.''
                          else if liquidity st = ''slow''
                          then Some (''Slow seller '' @ em_dash @
                                 '' be patient or price aggressively.'')
                          else None),
                       assumptions =
                         Some (selling_fees_pct * 100, avg_shipping, target_roi * 100) \<rparr>)))"

section \<open>\<open>pricing.py\<close>: deal score\<close>

definition profit_score :: "real \<Rightarrow> real" where
  "profit_score roi =
     (if roi \<ge> 100 then 100
      else if roi \<ge> 60 then 80
      else if roi \<ge> 40 then 60
      else if roi \<ge> 20 then 40
      else max roi 0)"

definition str_score :: "real option \<Rightarrow> string \<Rightarrow> real" where
  "str_score str_pct liq =
     (case str_pct of
        Some p \<Rightarrow> min (p * (15 / 10)) 100
      | None \<Rightarrow> if liq = ''hot'' then 80 else if liq = ''steady'' then 55 else 30)"

definition conf_score :: "string \<Rightarrow> real" where
  "conf_score conf =
     (if conf = ''high'' then 100
      else if conf = ''medium'' then 60
      else if conf = ''low'' then 25
      else 25)"

text \<open>A warning counts when it is a non-empty string (\<open>if recommendation.get(...)\<close>).\<close>

definition truthy :: "string option \<Rightarrow> bool" where
  "truthy w = (case w of None \<Rightarrow> False | Some s \<Rightarrow> s \<noteq> [])"

definition risk_score :: "recommendation_info \<Rightarrow> real" where
  "risk_score r =
     (let risk0 = 80;
          risk1 = (if truthy (spread_warning r) then risk0 - 30 else risk0);
          risk2 = (if truthy (liquidity_warning r) then risk1 - 20 else risk1)
      in max risk2 0)"

definition composite_score :: "real \<Rightarrow> real \<Rightarrow> real \<Rightarrow> real \<Rightarrow> real" where
  "composite_score p s c k = p * (40 / 100) + s * (35 / 100) + c * (15 / 100) + k * (10 / 100)"

definition verdict_of :: "real \<Rightarrow> string \<times> string" where
  "verdict_of composite =
     (if composite \<ge> 75 then (''HOT DEAL'', ''green'')
      else if composite \<ge> 55 then (''GOOD DEAL'', ''blue'')
      else if composite \<ge> 35 then (''OKAY'', ''yellow'')
      else (''PASS'', ''red''))"

definition summaries :: "string \<Rightarrow> string" where
  "summaries v =
     (if v = ''HOT DEAL'' then ''Strong profit margin with solid demand. Buy with confidence.''
      else if v = ''GOOD DEAL''
      then ''Decent profit potential. Worth picking up at the right price.''
      else if v = ''OKAY''
      then ''Marginal opportunity. Only buy if priced well below the max.''
      else ''Low margin or poor sell-through. Skip this one.'')"

definition no_data_score :: deal_score_info where
  "no_data_score =
     \<lparr> score = 0, verdict = ''NO DATA'', color = ''gray'',
       summary = ''Not enough market data.'', breakdown = None \<rparr>"

text \<open>
  \<open>_calculate_deal_score\<close>.  After the guard, a \<open>roi_percent\<close> of \<open>None\<close> would make the
  comparison \<open>roi >= 100\<close> raise \<open>TypeError\<close>.
\<close>

definition calculate_deal_score ::
  "recommendation_info \<Rightarrow> sell_through_info \<Rightarrow> py_error + deal_score_info" where
  "calculate_deal_score r st =
     (if estimated_profit r = None \<or> max_buy_price r = None then Inr no_data_score
      else (case roi_percent r of
              None \<Rightarrow> Inl TypeError
            | Some roi \<Rightarrow>
                (let p = profit_score roi;
                     s = str_score (sell_through_pct st) (liquidity st);
                     c = conf_score (confidence r);
                     k = risk_score r;
                     composite = composite_score p s c k;
                     (v, col) = verdict_of composite
                 in Inr \<lparr> score = py_round composite, verdict = v, color = col,
                          summary = summaries v,
                          breakdown =
                            Some (py_round p, py_round s, py_round c, py_round k) \<rparr>)))"

section \<open>\<open>pricing.py\<close>: \<open>analyze_prices\<close>\<close>

definition positive_prices :: "listing list \<Rightarrow> real list" where
  "positive_prices ls =
     concat (map (\<lambda>i. case price i of None \<Rightarrow> [] | Some p \<Rightarrow> if p \<noteq> 0 \<and> p > 0 then [p] else []) ls)"

text \<open>\<open>x if xs else None\<close>, and \<open>round(x, 2) if x else None\<close> (zero is falsy).\<close>

definition if_nonempty :: "real list \<Rightarrow> (real list \<Rightarrow> real) \<Rightarrow> real option" where
  "if_nonempty xs f = (if xs \<noteq> [] then Some (f xs) else None)"

definition round2_if :: "real option \<Rightarrow> real option" where
  "round2_if x = (case x of None \<Rightarrow> None | Some v \<Rightarrow> if v \<noteq> 0 then Some (round_nd 2 v) else None)"

definition list_min :: "real list \<Rightarrow> real" where
  "list_min xs = Min (set xs)"

definition list_max :: "real list \<Rightarrow> real" where
  "list_max xs = Max (set xs)"

definition mk_price_stats :: "real list \<Rightarrow> price_stats" where
  "mk_price_stats prices =
     \<lparr> average = round2_if (if_nonempty prices statistics_mean),
       median = round2_if (if_nonempty prices statistics_median),
       low = (if prices \<noteq> [] then Some (round_nd 2 (list_min prices)) else None),
       high = (if prices \<noteq> [] then Some (round_nd 2 (list_max prices)) else None) \<rparr>"

text \<open>\<open>median_sold or median_asking\<close>: the first operand unless it is \<open>None\<close> or zero.\<close>

definition py_or :: "real option \<Rightarrow> real option \<Rightarrow> real option" where
  "py_or a b = (case a of None \<Rightarrow> b | Some v \<Rightarrow> if v \<noteq> 0 then a else b)"

definition reference_price :: "listing list \<Rightarrow> listing list \<Rightarrow> real option" where
  "reference_price active_listings sold_listings =
     py_or (if_nonempty (positive_prices sold_listings) statistics_median)
           (if_nonempty (positive_prices active_listings) statistics_median)"

definition analyze_prices ::
  "(string \<Rightarrow> int option) \<Rightarrow> listing list \<Rightarrow> listing list \<Rightarrow> int \<Rightarrow> int \<Rightarrow> int
     \<Rightarrow> py_error + market_summary" where
  "analyze_prices days_ago active_listings sold_listings total_active total_sold total_completed =
     (let active_prices = positive_prices active_listings;
          sold_prices = positive_prices sold_listings;
          st = calc_sell_through days_ago sold_listings total_sold total_completed total_active
      in case calculate_recommendation
                (reference_price active_listings sold_listings) sold_prices st of
           Inl e \<Rightarrow> Inl e
         | Inr rec \<Rightarrow>
             (case calculate_deal_score rec st of
                Inl e \<Rightarrow> Inl e
              | Inr ds \<Rightarrow>
                  Inr \<lparr> active_listings_count = length active_prices,
                        sold_listings_count = length sold_prices,
                        total_active_on_market = total_active,
                        asking_price = mk_price_stats active_prices,
                        sold_price = mk_price_stats sold_prices,
                        sell_through = st,
                        recommendation = rec,
                        deal_score = ds \<rparr>))"

section \<open>\<open>ebay_service.py\<close> and \<open>ebay_scraper.py\<close>: the aggregator\<close>

text \<open>
  A sub-search (\<open>search_active_listings\<close>, \<open>scrape_sold_listings\<close>, ...) is a network call.
  What it delivers is an input of the model: either the exception that
  \<open>asyncio.gather(..., return_exceptions=True)\<close> hands back, or the pair of the listings
  and the total that the source reports.
\<close>

type_synonym fetch_result = "py_error + (listing list \<times> int)"

record adapter_results =
  active_r :: fetch_result
  sold_r :: fetch_result
  completed_r :: fetch_result

record listings_result =
  res_active :: "listing list"
  res_sold :: "listing list"
  res_total_active :: int
  res_total_sold :: int
  res_total_completed :: int

record search_result = listings_result +
  source_mode :: string

text \<open>\<open>([], 0) if isinstance(r, Exception) else r\<close>\<close>

definition or_empty :: "fetch_result \<Rightarrow> listing list \<times> int" where
  "or_empty r = (case r of Inl _ \<Rightarrow> ([], 0) | Inr v \<Rightarrow> v)"

definition scrape_all :: "adapter_results \<Rightarrow> listings_result" where
  "scrape_all scr =
     (let (a, ta) = or_empty (active_r scr);
          (s, ts) = or_empty (sold_r scr);
          (_, tc) = or_empty (completed_r scr)
      in \<lparr> res_active = a, res_sold = s, res_total_active = ta, res_total_sold = ts,
           res_total_completed = tc \<rparr>)"

definition api_keys_configured :: "string \<Rightarrow> bool" where
  "api_keys_configured ebay_app_id = (ebay_app_id \<noteq> [] \<and> ebay_app_id \<noteq> ''your-ebay-app-id'')"

text \<open>
  \<open>search_all\<close>: \<open>mode\<close> is the setting \<open>ebay_mode\<close>, \<open>ebay_app_id\<close> the environment's
  \<open>EBAY_APP_ID\<close>, \<open>api\<close> what the three calls of the API deliver and \<open>scr\<close> what the three
  scrapes deliver.  The API branch returns when it has an active or a sold listing;
  otherwise it sets \<open>use_scrape\<close> unless the mode is \<open>api\<close>.
\<close>

definition search_all :: "string \<Rightarrow> string \<Rightarrow> adapter_results \<Rightarrow> adapter_results \<Rightarrow> search_result" where
  "search_all mode ebay_app_id api scr =
     (let use_api = (mode = ''api'' \<or> (mode = ''auto'' \<and> api_keys_configured ebay_app_id));
          use_scrape = (mode = ''scrape'' \<or> (mode = ''auto'' \<and> \<not> api_keys_configured ebay_app_id));
          (a, ta) = or_empty (active_r api);
          (s, ts) = or_empty (sold_r api);
          (_, tc) = or_empty (completed_r api)
      in if use_api \<and> (a \<noteq> [] \<or> s \<noteq> []) then
           \<lparr> res_active = a, res_sold = s, res_total_active = ta, res_total_sold = ts,
             res_total_completed = tc, source_mode = ''api'' \<rparr>
         else if (if use_api \<and> mode \<noteq> ''api'' then True else use_scrape) then
           listings_result.extend (scrape_all scr) \<lparr> source_mode = ''scrape'' \<rparr>
         else
           \<lparr> res_active = [], res_sold = [], res_total_active = 0, res_total_sold = 0,
             res_total_completed = 0, source_mode = ''none'' \<rparr>)"

section \<open>\<open>inventory.py\<close>: the opportunities table\<close>

text \<open>
  The dictionary handed to \<open>add_opportunity\<close>, and a row of the table \<open>opportunities\<close>.
  \<open>ebay_item_id\<close> may be \<open>NULL\<close>.
\<close>

record opp_data =
  opp_watch_query_id :: string
  opp_ebay_item_id :: "string option"
  opp_title :: string
  opp_current_price :: real
  opp_estimated_sell_price :: real
  opp_estimated_profit :: real
  opp_deal_score :: int
  opp_deal_verdict :: string
  opp_item_url :: string
  opp_image_url :: string
  opp_condition :: string
  opp_seller :: string

record opportunity = opp_data +
  opp_id :: string
  opp_found_at :: string
  opp_status :: string
  opp_inventory_item_id :: "string option"

text \<open>
  \<open>INSERT OR IGNORE\<close> under the table's two uniqueness constraints: the primary key \<open>id\<close>
  and the unique index \<open>idx_opp_ebay_id\<close> on \<open>ebay_item_id\<close>, in which \<open>NULL\<close>s do not
  collide.  The second component is the number of rows changed.
\<close>

definition conflicts :: "opportunity \<Rightarrow> opportunity list \<Rightarrow> bool" where
  "conflicts row rows =
     (opp_id row \<in> set (map opp_id rows) \<or>
      (opp_ebay_item_id row \<noteq> None \<and> opp_ebay_item_id row \<in> set (map opp_ebay_item_id rows)))"

definition insert_or_ignore :: "opportunity \<Rightarrow> opportunity list \<Rightarrow> opportunity list \<times> nat" where
  "insert_or_ignore row rows = (if conflicts row rows then (rows, 0) else (rows @ [row], 1))"

definition get_opportunity :: "string \<Rightarrow> opportunity list \<Rightarrow> opportunity option" where
  "get_opportunity i rows = find (\<lambda>r. opp_id r = i) rows"

text \<open>
  \<open>add_opportunity\<close>: \<open>new_id\<close> is \<open>str(uuid.uuid4())[:8]\<close> and \<open>now\<close> the timestamp, both
  drawn by the call; the connection is fresh, so \<open>db.total_changes\<close> counts this insert only.
\<close>

definition add_opportunity ::
  "string \<Rightarrow> string \<Rightarrow> opp_data \<Rightarrow> opportunity list \<Rightarrow> opportunity option \<times> opportunity list" where
  "add_opportunity new_id now data rows =
     (let row = opp_data.extend data
                  \<lparr> opp_id = new_id, opp_found_at = now, opp_status = ''new'',
                    opp_inventory_item_id = None \<rparr>;
          (rows', total_changes) = insert_or_ignore row rows
      in if total_changes > 0 then (get_opportunity new_id rows', rows') else (None, rows'))"

section \<open>\<open>deal_scanner.py\<close>: scanning one watch query\<close>

record watch_query =
  wq_id :: string
  wq_query :: string
  wq_max_buy_price :: "real option"
  wq_min_profit :: real
  wq_min_deal_score :: int

text \<open>\<open>sep in s\<close>, \<open>s.split(sep)\<close> for a non-empty separator, and \<open>s.isdigit()\<close>.\<close>

fun contains :: "string \<Rightarrow> string \<Rightarrow> bool" where
  "contains sep [] = (sep = [])"
| "contains sep (c # cs) = (prefix sep (c # cs) \<or> contains sep cs)"

function split_on :: "string \<Rightarrow> string \<Rightarrow> string \<Rightarrow> string list" where
  "split_on sep acc [] = [rev acc]"
| "split_on sep acc (c # cs) =
     (if sep \<noteq> [] \<and> prefix sep (c # cs)
      then rev acc # split_on sep [] (drop (length sep) (c # cs))
      else split_on sep (c # acc) cs)"
  by pat_completeness auto
termination
  by (relation "measure (\<lambda>(sep, acc, s). length s)") auto

definition isdigit :: "string \<Rightarrow> bool" where
  "isdigit s = (s \<noteq> [] \<and> list_all (\<lambda>c. c \<in> set ''0123456789'') s)"

definition extract_ebay_id :: "string \<Rightarrow> string" where
  "extract_ebay_id url =
     (if contains ''/itm/'' url then
        (let parts = split_on ''/itm/'' [] url;
             tail = last (split_on ''/'' [] (hd (split_on ''?'' [] (last parts))))
         in if isdigit tail then tail else url)
      else url)"

text \<open>
  The state of the loop over the active listings: the table, \<open>new_count\<close>, and the
  dictionaries passed to \<open>add_opportunity\<close> so far, in call order.
\<close>

record scan_state =
  db_rows :: "opportunity list"
  new_count :: nat
  attempts :: "opp_data list"

definition item_score_of :: "int \<Rightarrow> real \<Rightarrow> int" where
  "item_score_of query_score item_roi =
     (if item_roi > 100 then min (query_score + 15) 100
      else if item_roi > 60 then min (query_score + 5) 100
      else query_score)"

definition item_verdict_of :: "string \<Rightarrow> real \<Rightarrow> string" where
  "item_verdict_of query_verdict item_roi =
     (if item_roi \<ge> 80 then ''HOT DEAL''
      else if item_roi \<ge> 50 then ''GOOD DEAL''
      else query_verdict)"

text \<open>
  One iteration of the loop.  \<open>gen k\<close> is the identifier and the timestamp that the
  \<open>k\<close>-th call of \<open>add_opportunity\<close> in this scan draws.
\<close>

definition scan_item ::
  "(nat \<Rightarrow> string \<times> string) \<Rightarrow> watch_query \<Rightarrow> real option \<Rightarrow> deal_score_info
     \<Rightarrow> listing \<Rightarrow> scan_state \<Rightarrow> scan_state" where
  "scan_item gen wq est_sell ds item st =
     (case price item of
        None \<Rightarrow> st
      | Some p \<Rightarrow>
          if p \<le> 0 then st
          else if (case wq_max_buy_price wq of None \<Rightarrow> False | Some mb \<Rightarrow> p > mb) then st
          else (case est_sell of
                  None \<Rightarrow> st
                | Some es \<Rightarrow>
                    if \<not> (es \<noteq> 0 \<and> es > 0) then st
                    else
                      (let item_profit = es * (87 / 100) - 7 - p in
                       if item_profit < wq_min_profit wq then st
                       else
                         (let item_roi = (if p > 0 then item_profit / p * 100 else 0);
                              item_score = item_score_of (score ds) item_roi
                          in if item_score < wq_min_deal_score wq then st
                             else
                               (let data =
                                      \<lparr> opp_watch_query_id = wq_id wq,
                                        opp_ebay_item_id = Some (extract_ebay_id (item_url item)),
                                        opp_title = title item,
                                        opp_current_price = p,
                                        opp_estimated_sell_price = es,
                                        opp_estimated_profit = round_nd 2 item_profit,
                                        opp_deal_score = item_score,
                                        opp_deal_verdict = item_verdict_of (verdict ds) item_roi,
                                        opp_item_url = item_url item,
                                        opp_image_url = image_url item,
                                        opp_condition = condition item,
                                        opp_seller = seller item \<rparr>;
                                    (new_id, now) = gen (length (attempts st));
                                    (opp, rows') = add_opportunity new_id now data (db_rows st)
                                in \<lparr> db_rows = rows',
                                     new_count = (if opp \<noteq> None then new_count st + 1
                                                  else new_count st),
                                     attempts = attempts st @ [data] \<rparr>)))))"

fun scan_items ::
  "(nat \<Rightarrow> string \<times> string) \<Rightarrow> watch_query \<Rightarrow> real option \<Rightarrow> deal_score_info
     \<Rightarrow> listing list \<Rightarrow> scan_state \<Rightarrow> scan_state" where
  "scan_items gen wq est_sell ds [] st = st"
| "scan_items gen wq est_sell ds (item # items) st =
     scan_items gen wq est_sell ds items (scan_item gen wq est_sell ds item st)"

text \<open>
  \<open>_scan_one_query\<close>, from the two fetch results and the table.  The function returns
  \<open>new_count\<close>; the model returns the whole final state of the loop.
\<close>

definition scan_one_query ::
  "(nat \<Rightarrow> string \<times> string) \<Rightarrow> (string \<Rightarrow> int option) \<Rightarrow> watch_query
     \<Rightarrow> fetch_result \<Rightarrow> fetch_result \<Rightarrow> opportunity list \<Rightarrow> py_error + scan_state" where
  "scan_one_query gen days_ago wq active_result sold_result rows =
     (let st0 = \<lparr> db_rows = rows, new_count = 0, attempts = [] \<rparr> in
      case active_result of
        Inl _ \<Rightarrow> Inr st0
      | Inr (active_items, total_active) \<Rightarrow>
          (let (sold_items, total_sold) = or_empty sold_result in
           if active_items = [] then Inr st0
           else (case analyze_prices days_ago active_items sold_items
                        total_active total_sold total_sold of
                   Inl e \<Rightarrow> Inl e
                 | Inr pricing \<Rightarrow>
                     Inr (scan_items gen wq
                            (estimated_sell_price (recommendation pricing))
                            (deal_score pricing) active_items st0))))"

section \<open>\<open>deal_scanner.py\<close>: starting and stopping the scanner\<close>

text \<open>
  The module's two globals.  A task is scheduled by \<open>asyncio.create_task\<close>, starts when
  the event loop first runs \<open>_scanner_loop\<close>, and is done when that coroutine returns.
\<close>

datatype task = Scheduled | Started | Finished

definition task_done :: "task \<Rightarrow> bool" where
  "task_done t = (t = Finished)"

record scanner =
  scanner_task :: "task option"
  scanner_running :: bool

definition initial_scanner :: scanner where
  "initial_scanner = \<lparr> scanner_task = None, scanner_running = False \<rparr>"

definition loop_active :: "scanner \<Rightarrow> bool" where
  "loop_active s = (case scanner_task s of None \<Rightarrow> False | Some t \<Rightarrow> \<not> task_done t)"

definition start_scanner :: "scanner \<Rightarrow> bool \<times> scanner" where
  "start_scanner s =
     (if loop_active s then (False, s)
      else (True, \<lparr> scanner_task = Some Scheduled, scanner_running = True \<rparr>))"

definition stop_scanner :: "scanner \<Rightarrow> bool \<times> scanner" where
  "stop_scanner s =
     (if \<not> scanner_running s then (False, s)
      else (True, s\<lparr> scanner_running := False \<rparr>))"

definition is_scanner_running :: "scanner \<Rightarrow> bool" where
  "is_scanner_running s = (scanner_running s \<and> scanner_task s \<noteq> None \<and> loop_active s)"

text \<open>
  What \<open>_scanner_loop\<close> does to the globals: its first statement sets the flag, and it
  returns once it reads the flag as false.
\<close>

definition loop_begin :: "scanner \<Rightarrow> scanner" where
  "loop_begin s =
     (if scanner_task s = Some Scheduled
      then \<lparr> scanner_task = Some Started, scanner_running = True \<rparr> else s)"

definition loop_exit :: "scanner \<Rightarrow> scanner" where
  "loop_exit s =
     (if scanner_task s = Some Started \<and> \<not> scanner_running s
      then s\<lparr> scanner_task := Some Finished \<rparr> else s)"

inductive reachable :: "scanner \<Rightarrow> bool" where
  at_init: "reachable initial_scanner"
| by_start: "reachable s \<Longrightarrow> reachable (snd (start_scanner s))"
| by_stop: "reachable s \<Longrightarrow> reachable (snd (stop_scanner s))"
| by_loop_begin: "reachable s \<Longrightarrow> reachable (loop_begin s)"
| by_loop_exit: "reachable s \<Longrightarrow> reachable (loop_exit s)"

section \<open>Auxiliary notions for the properties\<close>



text \<open>Sample data: a listing with a title, a price and a URL, and a failed fetch.\<close>

definition sample_listing :: "string \<Rightarrow> real option \<Rightarrow> string \<Rightarrow> listing" where
  "sample_listing t p url =
     \<lparr> title = t, price = p, currency = ''USD'', condition = ''Used'', image_url = [],
       item_url = url, seller = ''seller1'', source = ''ebay'', listing_type = ''active'',
       sold_date = [] \<rparr>"


definition all_failed :: adapter_results where
  "all_failed =
     \<lparr> active_r = Inl RequestError, sold_r = Inl RequestError, completed_r = Inl RequestError \<rparr>"

definition nothing_found :: adapter_results where
  "nothing_found = \<lparr> active_r = Inr ([], 0), sold_r = Inr ([], 0), completed_r = Inr ([], 7) \<rparr>"

definition one_active :: adapter_results where
  "one_active =
     \<lparr> active_r = Inr ([sample_listing ''camera'' (Some 20) ''https://www.ebay.com/itm/1''], 1),
       sold_r = Inl RequestError, completed_r = Inl RequestError \<rparr>"

text \<open>A clock under which no sold date parses, and listings with the given prices.\<close>

definition never_parses :: "string \<Rightarrow> int option" where
  "never_parses sd = None"

definition priced :: "real list \<Rightarrow> listing list" where
  "priced ps = map (\<lambda>p. sample_listing ''item'' (Some p) []) ps"

text \<open>A monetary figure that is absent or not negative.\<close>

definition opt_nonneg :: "real option \<Rightarrow> bool" where
  "opt_nonneg x = (case x of None \<Rightarrow> True | Some v \<Rightarrow> 0 \<le> v)"






text \<open>
  The end-to-end example of the specification: five active listings, twelve sold listings
  at 90, and the watch query with \<open>max_buy_price\<close> 50, \<open>min_profit\<close> 5 and
  \<open>min_deal_score\<close> 50.
\<close>

definition camera_listings :: "listing list" where
  "camera_listings =
     [sample_listing ''camera 1'' (Some 20) ''https://www.ebay.com/itm/101'',
      sample_listing ''camera 2'' (Some 30) ''https://www.ebay.com/itm/102?hash=a'',
      sample_listing ''camera 3'' (Some 45) ''https://www.ebay.com/itm/vintage/103'',
      sample_listing ''camera 4'' (Some 60) ''https://www.ebay.com/itm/104'',
      sample_listing ''camera 5'' (Some 80) ''https://www.ebay.com/itm/105'']"


definition camera_watch :: watch_query where
  "camera_watch =
     \<lparr> wq_id = ''wq1'', wq_query = ''vintage camera'', wq_max_buy_price = Some 50,
       wq_min_profit = 5, wq_min_deal_score = 50 \<rparr>"

definition sample_gen :: "nat \<Rightarrow> string \<times> string" where
  "sample_gen k = (replicate (Suc k) CHR ''a'', ''2026-01-01T00:00:00+00:00'')"

section \<open>Properties\<close>

subsection \<open>Rounding and positive prices\<close>

lemma py_round_close: "\<bar>of_int (py_round x) - x\<bar> \<le> 1 / 2"
  unfolding py_round_def Let_def by (auto simp: abs_if) linarith+

lemma py_round_nonneg: "0 \<le> x \<Longrightarrow> 0 \<le> py_round x"
  unfolding py_round_def Let_def by (auto simp: zero_le_floor)

lemma round_nd_nonneg: "0 \<le> x \<Longrightarrow> 0 \<le> round_nd n x"
  unfolding round_nd_def by (simp add: py_round_nonneg)

lemma positive_prices_pos: "p \<in> set (positive_prices ls) \<Longrightarrow> 0 < p"
  by (auto simp: positive_prices_def split: option.splits if_splits)

lemma sum_list_pos_real: "xs \<noteq> [] \<Longrightarrow> \<forall>x\<in>set xs. (0::real) < x \<Longrightarrow> 0 < sum_list xs"
proof (cases xs)
  case Nil
  then show "xs \<noteq> [] \<Longrightarrow> ?thesis" by simp
next
  case (Cons y ys)
  assume pos: "\<forall>x\<in>set xs. (0::real) < x"
  then have "0 \<le> sum_list ys" using Cons by (intro sum_list_nonneg) (auto intro: less_imp_le)
  moreover have "0 < y" using pos Cons by simp
  ultimately show ?thesis using Cons by simp
qed

lemma mean_pos: "xs \<noteq> [] \<Longrightarrow> \<forall>x\<in>set xs. 0 < x \<Longrightarrow> 0 < statistics_mean xs"
  unfolding statistics_mean_def by (simp add: sum_list_pos_real)

lemma sorted_nth_pos:
  assumes "\<forall>x\<in>set xs. (0::real) < x" "i < length xs"
  shows "0 < sort xs ! i"
proof -
  have "sort xs ! i \<in> set (sort xs)" using assms(2) by (intro nth_mem) simp
  then show ?thesis using assms(1) by simp
qed

lemma median_pos:
  assumes "xs \<noteq> []" "\<forall>x\<in>set xs. 0 < x"
  shows "0 < statistics_median xs"
proof -
  have n: "0 < length xs" using assms(1) by simp
  have a: "length xs div 2 < length xs" using n by arith
  have b: "length xs div 2 - 1 < length xs" using n by arith
  show ?thesis
    unfolding statistics_median_def Let_def
    using sorted_nth_pos[OF assms(2) a] sorted_nth_pos[OF assms(2) b]
    by auto
qed

text \<open>
  A reference price is the median of a non-empty list of positive prices, so it is positive
  whenever it is defined; the sold prices take precedence over the asking prices.
\<close>

lemma reference_price_pos: "reference_price a s = Some r \<Longrightarrow> 0 < r"
  unfolding reference_price_def py_or_def if_nonempty_def
  using median_pos[of "positive_prices s"] median_pos[of "positive_prices a"]
    positive_prices_pos[of _ s] positive_prices_pos[of _ a]
  by (auto split: if_splits option.splits)

lemma reference_price_eq:
  "reference_price a s =
     (if positive_prices s \<noteq> [] then Some (statistics_median (positive_prices s))
      else if positive_prices a \<noteq> [] then Some (statistics_median (positive_prices a))
      else None)"
  unfolding reference_price_def py_or_def if_nonempty_def
  using median_pos[of "positive_prices s"] positive_prices_pos[of _ s]
  by (fastforce split: if_splits option.splits)

lemma or_empty_simps [simp]:
  "or_empty (Inl e) = ([], 0)" "or_empty (Inr v) = v"
  by (simp_all add: or_empty_def)

subsection \<open>Sell-through and liquidity\<close>



subsection \<open>The aggregator\<close>

text \<open>
  Claim C1.  In mode \<open>auto\<close> with the API credentials configured: when the API delivers no
  active and no sold listing (each call failed or came back empty), \<open>search_all\<close> returns
  what the scraper delivers, labelled \<open>scrape\<close>; when the API delivers an active or a sold
  listing, the label is \<open>api\<close>.  In every mode the label is never \<open>auto\<close>.
\<close>

theorem search_all_auto:
  "(mode = ''auto'' \<and> api_keys_configured app_id \<longrightarrow>
      (fst (or_empty (active_r api)) = [] \<and> fst (or_empty (sold_r api)) = [] \<longrightarrow>
         search_all mode app_id api scr =
           listings_result.extend (scrape_all scr) \<lparr> source_mode = ''scrape'' \<rparr>
         \<and> source_mode (search_all mode app_id api scr) = ''scrape'')
      \<and> (fst (or_empty (active_r api)) \<noteq> [] \<or> fst (or_empty (sold_r api)) \<noteq> [] \<longrightarrow>
         source_mode (search_all mode app_id api scr) = ''api''))
   \<and> source_mode (search_all mode app_id api scr) \<noteq> ''auto''"
  by (auto simp: search_all_def Let_def listings_result.defs split: prod.splits)

theorem search_all_auto_witness:
  "api_keys_configured ''my-app-id''
   \<and> fst (or_empty (active_r nothing_found)) = [] \<and> fst (or_empty (sold_r nothing_found)) = []
   \<and> source_mode (search_all ''auto'' ''my-app-id'' nothing_found one_active) = ''scrape''
   \<and> length (res_active (search_all ''auto'' ''my-app-id'' nothing_found one_active)) = 1
   \<and> fst (or_empty (active_r one_active)) \<noteq> []
   \<and> source_mode (search_all ''auto'' ''my-app-id'' one_active all_failed) = ''api''"
  using search_all_auto[of "''auto''" "''my-app-id''" nothing_found one_active]
    search_all_auto[of "''auto''" "''my-app-id''" one_active all_failed]
  by (simp add: api_keys_configured_def nothing_found_def one_active_def all_failed_def
        scrape_all_def listings_result.defs)

text \<open>
  Claim C9, as stated: in mode \<open>api\<close>, when the three calls of the API fail, the result is
  labelled \<open>api\<close>.  It is not: the label is \<open>none\<close>.
\<close>

theorem search_all_api_failure_counterexample:
  "source_mode (search_all ''api'' ''my-app-id'' all_failed all_failed) \<noteq> ''api''"
  by (simp add: search_all_def Let_def api_keys_configured_def scrape_all_def all_failed_def
        listings_result.defs)

text \<open>
  Claim C9, amended.  In mode \<open>api\<close>, when the three calls of the API fail, \<open>search_all\<close>
  returns empty listing lists and zero totals, labelled \<open>none\<close>; the scraper is not used.
\<close>

theorem search_all_api_failure:
  "mode = ''api'' \<and> active_r api = Inl e1 \<and> sold_r api = Inl e2 \<and> completed_r api = Inl e3 \<longrightarrow>
     search_all mode app_id api scr =
       \<lparr> res_active = [], res_sold = [], res_total_active = 0, res_total_sold = 0,
         res_total_completed = 0, source_mode = ''none'' \<rparr>"
  by (auto simp: search_all_def Let_def listings_result.defs split: prod.splits)

theorem search_all_api_failure_witness:
  "active_r all_failed = Inl RequestError \<and> sold_r all_failed = Inl RequestError
   \<and> completed_r all_failed = Inl RequestError
   \<and> search_all ''api'' ''my-app-id'' all_failed one_active =
       \<lparr> res_active = [], res_sold = [], res_total_active = 0, res_total_sold = 0,
         res_total_completed = 0, source_mode = ''none'' \<rparr>"
  using search_all_api_failure[of "''api''" all_failed RequestError RequestError RequestError
      "''my-app-id''" one_active]
  by (simp add: all_failed_def)

subsection \<open>The scanner's switch\<close>

text \<open>In every reachable state, the flag is set only while a loop is active.\<close>

lemma reachable_running_active:
  "reachable s \<Longrightarrow> scanner_running s \<longrightarrow> loop_active s"
  by (induction rule: reachable.induct)
     (auto simp: initial_scanner_def start_scanner_def stop_scanner_def loop_begin_def
        loop_exit_def loop_active_def task_done_def split: option.splits)

text \<open>
  Claim C8.  In every reachable state of the scanner: \<open>start_scanner\<close> returns false exactly
  when a scan loop is active, and otherwise returns true and leaves a loop active with the
  flag set; \<open>stop_scanner\<close> returns false exactly when the scanner is not running, and after
  a stop that returned true the next stop returns false.  From a state without an active
  loop, start, start, stop, stop return true, false, true, false, also when the event loop
  runs the task in between.
\<close>

theorem scanner_start_stop:
  "reachable s \<longrightarrow>
     (fst (start_scanner s) = False \<longleftrightarrow> loop_active s)
   \<and> (fst (start_scanner s) \<longrightarrow>
        loop_active (snd (start_scanner s)) \<and> scanner_running (snd (start_scanner s)))
   \<and> (fst (stop_scanner s) = False \<longleftrightarrow> \<not> is_scanner_running s)
   \<and> (fst (stop_scanner s) \<longrightarrow> fst (stop_scanner (snd (stop_scanner s))) = False)
   \<and> (\<not> loop_active s \<longrightarrow>
        (let (r1, s1) = start_scanner s; (r2, s2) = start_scanner s1;
             (r3, s3) = stop_scanner s2; (r4, s4) = stop_scanner s3
         in r1 = True \<and> r2 = False \<and> r3 = True \<and> r4 = False)
      \<and> (let (r1, s1) = start_scanner s; (r2, s2) = start_scanner (loop_begin s1);
             (r3, s3) = stop_scanner s2; (r4, s4) = stop_scanner (loop_exit s3)
         in r1 = True \<and> r2 = False \<and> r3 = True \<and> r4 = False \<and> \<not> loop_active s4))"
  using reachable_running_active[of s]
  by (auto simp: start_scanner_def stop_scanner_def loop_active_def task_done_def
        is_scanner_running_def loop_begin_def loop_exit_def split: option.splits)

theorem scanner_start_stop_witness:
  "reachable initial_scanner \<and> \<not> loop_active initial_scanner
   \<and> fst (start_scanner initial_scanner) = True
   \<and> fst (start_scanner (snd (start_scanner initial_scanner))) = False
   \<and> fst (stop_scanner (snd (start_scanner initial_scanner))) = True
   \<and> fst (stop_scanner (snd (stop_scanner (snd (start_scanner initial_scanner))))) = False
   \<and> fst (stop_scanner initial_scanner) = False"
  using scanner_start_stop[of initial_scanner] scanner_start_stop[of "snd (start_scanner initial_scanner)"]
    reachable.at_init reachable.by_start[OF reachable.at_init]
  by (simp add: initial_scanner_def start_scanner_def stop_scanner_def loop_active_def
        task_done_def is_scanner_running_def)

subsection \<open>Deduplication of opportunities\<close>







subsection \<open>The recommendation\<close>

lemma less_sqrt_iff: "0 \<le> a \<Longrightarrow> (a < sqrt v) = (a\<^sup>2 < v)"
proof -
  assume a: "0 \<le> a"
  have "(a < sqrt v) = (sqrt (a\<^sup>2) < sqrt v)" using a by simp
  also have "\<dots> = (a\<^sup>2 < v)" by (rule real_sqrt_less_iff)
  finally show ?thesis .
qed

lemma cv_gt_half:
  assumes "0 < statistics_mean xs"
  shows "(statistics_stdev xs / statistics_mean xs > 5 / 10) =
         (4 * statistics_variance xs > (statistics_mean xs)\<^sup>2)"
proof -
  let ?m = "statistics_mean xs"
  have "(statistics_stdev xs / ?m > 5 / 10) = (?m / 2 < statistics_stdev xs)"
    using assms by (simp add: field_simps)
  also have "\<dots> = ((?m / 2)\<^sup>2 < statistics_variance xs)"
    unfolding statistics_stdev_def using assms by (intro less_sqrt_iff) simp
  also have "\<dots> = (4 * statistics_variance xs > ?m\<^sup>2)"
    by (simp add: power2_eq_square field_simps)
  finally show ?thesis .
qed

lemma calculate_recommendation_None [simp]:
  "calculate_recommendation None sp st = Inr no_recommendation"
  by (simp add: calculate_recommendation_def)

lemma calculate_recommendation_fields:
  assumes "r \<noteq> 0" "3 \<le> length sp \<longrightarrow> statistics_mean sp \<noteq> 0"
  shows "\<exists>rc. calculate_recommendation (Some r) sp st = Inr rc \<and>
     (let net = r * (1 - 13 / 100) - 7;
          base = net / (140 / 100);
          spread = (3 \<le> length sp \<and> statistics_stdev sp / statistics_mean sp > 5 / 10);
          mb1 = (if spread then base * (8 / 10) else base);
          mb2 = (if liquidity st = ''dead'' then mb1 * (6 / 10)
                 else if liquidity st = ''slow'' then mb1 * (85 / 100) else mb1)
      in net_after_fees rc = Some (round_nd 2 net)
       \<and> estimated_sell_price rc = Some (round_nd 2 r)
       \<and> max_buy_price rc = Some (round_nd 2 (max mb2 0))
       \<and> estimated_profit rc = Some (round_nd 2 (max (net - mb2) 0))
       \<and> roi_percent rc = Some (if mb2 > 0 then round_nd 1 ((net - mb2) / mb2 * 100) else 0)
       \<and> confidence rc = (if 10 \<le> length sp then ''high''
                           else if 5 \<le> length sp then ''medium'' else ''low'')
       \<and> (spread_warning rc \<noteq> None \<longleftrightarrow> spread)
       \<and> (truthy (spread_warning rc) \<longleftrightarrow> spread)
       \<and> (liquidity_warning rc \<noteq> None \<longleftrightarrow> liquidity st = ''dead'' \<or> liquidity st = ''slow'')
       \<and> (truthy (liquidity_warning rc) \<longleftrightarrow> liquidity st = ''dead'' \<or> liquidity st = ''slow''))"
  using assms
  by (cases "3 \<le> length sp"; cases "statistics_stdev sp / statistics_mean sp > 5 / 10";
      cases "liquidity st = ''dead''"; cases "liquidity st = ''slow''")
     (simp_all add: calculate_recommendation_def Let_def selling_fees_pct_def avg_shipping_def
        target_roi_def calc_confidence_def truthy_def)

lemma calculate_deal_score_no_data [simp]:
  "calculate_deal_score no_recommendation st = Inr no_data_score"
  by (simp add: calculate_deal_score_def no_recommendation_def)

lemma verdict_of_cases:
  "fst (verdict_of c) = ''HOT DEAL'' \<longleftrightarrow> c \<ge> 75"
  "fst (verdict_of c) = ''GOOD DEAL'' \<longleftrightarrow> 55 \<le> c \<and> c < 75"
  "fst (verdict_of c) = ''OKAY'' \<longleftrightarrow> 35 \<le> c \<and> c < 55"
  "fst (verdict_of c) = ''PASS'' \<longleftrightarrow> c < 35"
  by (auto simp: verdict_of_def)

lemma calculate_deal_score_fields:
  assumes "max_buy_price rc \<noteq> None" "estimated_profit rc \<noteq> None" "roi_percent rc = Some roi"
  shows "\<exists>ds. calculate_deal_score rc st = Inr ds \<and>
     (let p = profit_score roi;
          dm = str_score (sell_through_pct st) (liquidity st);
          c = conf_score (confidence rc);
          k = risk_score rc;
          comp = composite_score p dm c k
      in score ds = py_round comp
       \<and> breakdown ds = Some (py_round p, py_round dm, py_round c, py_round k)
       \<and> verdict ds = fst (verdict_of comp))"
  using assms
  by (auto simp: calculate_deal_score_def Let_def split: prod.splits)

lemma mean_ne0: "3 \<le> length (positive_prices s) \<longrightarrow> statistics_mean (positive_prices s) \<noteq> 0"
proof
  assume "3 \<le> length (positive_prices s)"
  then have "positive_prices s \<noteq> []" by auto
  then have "0 < statistics_mean (positive_prices s)"
    by (intro mean_pos) (auto simp: positive_prices_pos)
  then show "statistics_mean (positive_prices s) \<noteq> 0" by simp
qed

lemma analyze_prices_total:
  "\<exists>ms. analyze_prices d a s ta ts tc = Inr ms
     \<and> calculate_recommendation (reference_price a s) (positive_prices s)
          (calc_sell_through d s ts tc ta) = Inr (recommendation ms)
     \<and> calculate_deal_score (recommendation ms) (calc_sell_through d s ts tc ta)
          = Inr (deal_score ms)
     \<and> sell_through ms = calc_sell_through d s ts tc ta
     \<and> asking_price ms = mk_price_stats (positive_prices a)
     \<and> sold_price ms = mk_price_stats (positive_prices s)"
proof (cases "reference_price a s")
  case None
  then show ?thesis by (simp add: analyze_prices_def Let_def)
next
  case (Some r)
  let ?st = "calc_sell_through d s ts tc ta"
  have "r \<noteq> 0" using reference_price_pos[OF Some] by simp
  from calculate_recommendation_fields[OF this mean_ne0, of s ?st]
  obtain rc where rc: "calculate_recommendation (Some r) (positive_prices s) ?st = Inr rc"
    and f: "max_buy_price rc \<noteq> None" "estimated_profit rc \<noteq> None" "roi_percent rc \<noteq> None"
    by (auto simp: Let_def)
  from f(3) obtain roi where "roi_percent rc = Some roi" by auto
  from calculate_deal_score_fields[OF f(1) f(2) this, of ?st]
  obtain ds where "calculate_deal_score rc ?st = Inr ds" by auto
  with rc Some show ?thesis by (simp add: analyze_prices_def Let_def)
qed


lemma positive_prices_priced:
  "positive_prices (priced ps) = filter (\<lambda>p. 0 < p) ps"
  by (induction ps) (auto simp: priced_def positive_prices_def sample_listing_def)

lemma analyze_prices_sell_through:
  "analyze_prices d a s ta ts tc = Inr ms \<Longrightarrow> sell_through ms = calc_sell_through d s ts tc ta"
  using analyze_prices_total[of d a s ta ts tc] by auto


subsection \<open>The deal score\<close>

lemma profit_score_range: "0 \<le> profit_score roi \<and> profit_score roi \<le> 100"
  by (simp add: profit_score_def)

lemma conf_score_range: "0 \<le> conf_score c \<and> conf_score c \<le> 100"
  by (simp add: conf_score_def)

lemma risk_score_range: "0 \<le> risk_score rc \<and> risk_score rc \<le> 100"
  by (simp add: risk_score_def Let_def)

lemma str_score_le: "str_score q liq \<le> 100"
  by (simp add: str_score_def split: option.splits)

lemma str_score_ge: "opt_nonneg q \<Longrightarrow> 0 \<le> str_score q liq"
  by (simp add: str_score_def opt_nonneg_def split: option.splits)

lemma sell_through_pct_nonneg:
  "0 \<le> ts \<Longrightarrow> opt_nonneg (sell_through_pct (calc_sell_through d s ts tc ta))"
  by (auto simp: calc_sell_through_def Let_def opt_nonneg_def intro!: round_nd_nonneg)

text \<open>
  Claim C4.  When the reference price is undefined, \<open>max_buy_price\<close> is undefined and the deal
  score is 0 with verdict \<open>NO DATA\<close>.  Otherwise the profit score follows the tiers on the
  ROI, the demand score is 1.5 times the sell-through percent capped at 100 or the default
  80/55/30 of the liquidity, the confidence score is 100/60/25, the risk score is 80 minus
  30 with a spread warning and minus 20 with a liquidity warning, floored at 0; each lies
  between 0 and 100 (the demand score is non-negative because the sold count is); the
  composite is their sum weighted 0.40/0.35/0.15/0.10, the score is the composite rounded,
  and the verdict is \<open>HOT DEAL\<close> exactly from 75 on, \<open>GOOD DEAL\<close> exactly in [55, 75),
  \<open>OKAY\<close> exactly in [35, 55) and \<open>PASS\<close> exactly below 35.
\<close>

theorem deal_score_tiers:
  "(reference_price a s = None \<longrightarrow>
      (\<exists>ms. analyze_prices d a s ta ts tc = Inr ms
         \<and> max_buy_price (recommendation ms) = None
         \<and> score (deal_score ms) = 0 \<and> verdict (deal_score ms) = ''NO DATA''))
   \<and> (reference_price a s \<noteq> None \<longrightarrow>
      (\<exists>ms roi. analyze_prices d a s ta ts tc = Inr ms
         \<and> max_buy_price (recommendation ms) \<noteq> None
         \<and> roi_percent (recommendation ms) = Some roi
         \<and> (let rc = recommendation ms; st = sell_through ms; ds = deal_score ms;
                 p = (if roi \<ge> 100 then 100 else if roi \<ge> 60 then 80
                      else if roi \<ge> 40 then 60 else if roi \<ge> 20 then 40 else max roi 0);
                 dm = (case sell_through_pct st of
                         Some q \<Rightarrow> min (15 / 10 * q) 100
                       | None \<Rightarrow> if liquidity st = ''hot'' then 80
                                 else if liquidity st = ''steady'' then 55 else 30);
                 c = (if confidence rc = ''high'' then 100
                      else if confidence rc = ''medium'' then 60 else 25);
                 k = max (80 - (if spread_warning rc \<noteq> None then 30 else 0)
                             - (if liquidity_warning rc \<noteq> None then 20 else 0)) 0;
                 comp = 40 / 100 * p + 35 / 100 * dm + 15 / 100 * c + 10 / 100 * k
             in 0 \<le> p \<and> p \<le> 100 \<and> (0 \<le> ts \<longrightarrow> 0 \<le> dm) \<and> dm \<le> 100
              \<and> 0 \<le> c \<and> c \<le> 100 \<and> 0 \<le> k \<and> k \<le> 100
              \<and> breakdown ds = Some (py_round p, py_round dm, py_round c, py_round k)
              \<and> score ds = py_round comp
              \<and> (verdict ds = ''HOT DEAL'' \<longleftrightarrow> comp \<ge> 75)
              \<and> (verdict ds = ''GOOD DEAL'' \<longleftrightarrow> 55 \<le> comp \<and> comp < 75)
              \<and> (verdict ds = ''OKAY'' \<longleftrightarrow> 35 \<le> comp \<and> comp < 55)
              \<and> (verdict ds = ''PASS'' \<longleftrightarrow> comp < 35))))"
proof (intro conjI impI)
  let ?st = "calc_sell_through d s ts tc ta"
  obtain ms where ms: "analyze_prices d a s ta ts tc = Inr ms"
    and rc: "calculate_recommendation (reference_price a s) (positive_prices s) ?st
               = Inr (recommendation ms)"
    and ds: "calculate_deal_score (recommendation ms) ?st = Inr (deal_score ms)"
    and st: "sell_through ms = ?st"
    using analyze_prices_total[of d a s ta ts tc] by auto
  {
    assume "reference_price a s = None"
    with rc have nr: "recommendation ms = no_recommendation" by simp
    with ds have "deal_score ms = no_data_score" by simp
    with nr have "max_buy_price (recommendation ms) = None \<and> score (deal_score ms) = 0
        \<and> verdict (deal_score ms) = ''NO DATA''"
      by (simp add: no_recommendation_def no_data_score_def)
    with ms show "\<exists>ms. analyze_prices d a s ta ts tc = Inr ms
         \<and> max_buy_price (recommendation ms) = None
         \<and> score (deal_score ms) = 0 \<and> verdict (deal_score ms) = ''NO DATA''"
      by blast
  }
  {
    assume "reference_price a s \<noteq> None"
    then obtain r where ref: "reference_price a s = Some r" by auto
    let ?rc = "recommendation ms"
    have "r \<noteq> 0" using reference_price_pos[OF ref] by simp
    from calculate_recommendation_fields[OF this mean_ne0, of s ?st] rc ref
    obtain roi where mb: "max_buy_price ?rc \<noteq> None" and ep: "estimated_profit ?rc \<noteq> None"
      and roi: "roi_percent ?rc = Some roi"
      and conf: "confidence ?rc = ''high'' \<or> confidence ?rc = ''medium'' \<or> confidence ?rc = ''low''"
      and sw: "truthy (spread_warning ?rc) \<longleftrightarrow> spread_warning ?rc \<noteq> None"
      and lw: "truthy (liquidity_warning ?rc) \<longleftrightarrow> liquidity_warning ?rc \<noteq> None"
      by (auto simp: Let_def)
    define p where "p = profit_score roi"
    define dm where "dm = str_score (sell_through_pct ?st) (liquidity ?st)"
    define c where "c = conf_score (confidence ?rc)"
    define k where "k = risk_score ?rc"
    define comp where "comp = composite_score p dm c k"
    from calculate_deal_score_fields[OF mb ep roi, of ?st] ds
    have sc: "score (deal_score ms) = py_round comp"
      and br: "breakdown (deal_score ms) = Some (py_round p, py_round dm, py_round c, py_round k)"
      and ve: "verdict (deal_score ms) = fst (verdict_of comp)"
      by (auto simp: Let_def p_def dm_def c_def k_def comp_def)
    have p_eq: "p = (if roi \<ge> 100 then 100 else if roi \<ge> 60 then 80
                      else if roi \<ge> 40 then 60 else if roi \<ge> 20 then 40 else max roi 0)"
      by (simp add: p_def profit_score_def)
    have dm_eq: "dm = (case sell_through_pct ?st of
                         Some q \<Rightarrow> min (15 / 10 * q) 100
                       | None \<Rightarrow> if liquidity ?st = ''hot'' then 80
                                 else if liquidity ?st = ''steady'' then 55 else 30)"
      by (simp add: dm_def str_score_def mult.commute split: option.splits)
    have c_eq: "c = (if confidence ?rc = ''high'' then 100
                      else if confidence ?rc = ''medium'' then 60 else 25)"
      by (simp add: c_def conf_score_def)
    have k_eq: "k = max (80 - (if spread_warning ?rc \<noteq> None then 30 else 0)
                             - (if liquidity_warning ?rc \<noteq> None then 20 else 0)) 0"
      using sw lw by (simp add: k_def risk_score_def Let_def)
    have comp_eq: "comp = 40 / 100 * p + 35 / 100 * dm + 15 / 100 * c + 10 / 100 * k"
      by (simp add: comp_def composite_score_def)
    have ranges: "0 \<le> p \<and> p \<le> 100 \<and> (0 \<le> ts \<longrightarrow> 0 \<le> dm) \<and> dm \<le> 100
              \<and> 0 \<le> c \<and> c \<le> 100 \<and> 0 \<le> k \<and> k \<le> 100"
      unfolding p_def dm_def c_def k_def
      using profit_score_range[of roi] conf_score_range[of "confidence ?rc"]
        risk_score_range[of ?rc] str_score_le[of "sell_through_pct ?st" "liquidity ?st"]
        str_score_ge[OF sell_through_pct_nonneg, of ts d s tc ta "liquidity ?st"]
      by simp
    have "let rc = recommendation ms; st = sell_through ms; ds = deal_score ms;
                 p = (if roi \<ge> 100 then 100 else if roi \<ge> 60 then 80
                      else if roi \<ge> 40 then 60 else if roi \<ge> 20 then 40 else max roi 0);
                 dm = (case sell_through_pct st of
                         Some q \<Rightarrow> min (15 / 10 * q) 100
                       | None \<Rightarrow> if liquidity st = ''hot'' then 80
                                 else if liquidity st = ''steady'' then 55 else 30);
                 c = (if confidence rc = ''high'' then 100
                      else if confidence rc = ''medium'' then 60 else 25);
                 k = max (80 - (if spread_warning rc \<noteq> None then 30 else 0)
                             - (if liquidity_warning rc \<noteq> None then 20 else 0)) 0;
                 comp = 40 / 100 * p + 35 / 100 * dm + 15 / 100 * c + 10 / 100 * k
             in 0 \<le> p \<and> p \<le> 100 \<and> (0 \<le> ts \<longrightarrow> 0 \<le> dm) \<and> dm \<le> 100
              \<and> 0 \<le> c \<and> c \<le> 100 \<and> 0 \<le> k \<and> k \<le> 100
              \<and> breakdown ds = Some (py_round p, py_round dm, py_round c, py_round k)
              \<and> score ds = py_round comp
              \<and> (verdict ds = ''HOT DEAL'' \<longleftrightarrow> comp \<ge> 75)
              \<and> (verdict ds = ''GOOD DEAL'' \<longleftrightarrow> 55 \<le> comp \<and> comp < 75)
              \<and> (verdict ds = ''OKAY'' \<longleftrightarrow> 35 \<le> comp \<and> comp < 55)
              \<and> (verdict ds = ''PASS'' \<longleftrightarrow> comp < 35)"
      unfolding Let_def st
        p_eq[symmetric] dm_eq[symmetric] c_eq[symmetric] k_eq[symmetric] comp_eq[symmetric]
      using ranges sc br ve verdict_of_cases[of comp] by simp
    with ms mb roi
    show "\<exists>ms roi. analyze_prices d a s ta ts tc = Inr ms
         \<and> max_buy_price (recommendation ms) \<noteq> None
         \<and> roi_percent (recommendation ms) = Some roi
         \<and> (let rc = recommendation ms; st = sell_through ms; ds = deal_score ms;
                 p = (if roi \<ge> 100 then 100 else if roi \<ge> 60 then 80
                      else if roi \<ge> 40 then 60 else if roi \<ge> 20 then 40 else max roi 0);
                 dm = (case sell_through_pct st of
                         Some q \<Rightarrow> min (15 / 10 * q) 100
                       | None \<Rightarrow> if liquidity st = ''hot'' then 80
                                 else if liquidity st = ''steady'' then 55 else 30);
                 c = (if confidence rc = ''high'' then 100
                      else if confidence rc = ''medium'' then 60 else 25);
                 k = max (80 - (if spread_warning rc \<noteq> None then 30 else 0)
                             - (if liquidity_warning rc \<noteq> None then 20 else 0)) 0;
                 comp = 40 / 100 * p + 35 / 100 * dm + 15 / 100 * c + 10 / 100 * k
             in 0 \<le> p \<and> p \<le> 100 \<and> (0 \<le> ts \<longrightarrow> 0 \<le> dm) \<and> dm \<le> 100
              \<and> 0 \<le> c \<and> c \<le> 100 \<and> 0 \<le> k \<and> k \<le> 100
              \<and> breakdown ds = Some (py_round p, py_round dm, py_round c, py_round k)
              \<and> score ds = py_round comp
              \<and> (verdict ds = ''HOT DEAL'' \<longleftrightarrow> comp \<ge> 75)
              \<and> (verdict ds = ''GOOD DEAL'' \<longleftrightarrow> 55 \<le> comp \<and> comp < 75)
              \<and> (verdict ds = ''OKAY'' \<longleftrightarrow> 35 \<le> comp \<and> comp < 55)
              \<and> (verdict ds = ''PASS'' \<longleftrightarrow> comp < 35))"
      by blast
  }
qed

lemma analyze_prices_recommendation:
  assumes "analyze_prices d a s ta ts tc = Inr ms"
  shows "calculate_recommendation (reference_price a s) (positive_prices s)
           (calc_sell_through d s ts tc ta) = Inr (recommendation ms)"
  using analyze_prices_total[of d a s ta ts tc] assms by auto

lemma sample_summary:
  assumes ms: "analyze_prices never_parses [] (priced [10, 100, 190]) 0 10 100 = Inr ms"
  shows "roi_percent (recommendation ms) = Some (1917 / 10)"
    and "confidence (recommendation ms) = ''low''"
    and "spread_warning (recommendation ms) \<noteq> None"
    and "liquidity_warning (recommendation ms) \<noteq> None"
    and "sell_through_pct (sell_through ms) = Some 10"
proof -
  let ?s = "priced [10, 100, 190]"
  let ?st = "calc_sell_through never_parses ?s 10 100 0"
  have sp: "positive_prices ?s = [10, 100, 190]"
    by (simp add: positive_prices_priced)
  have ref: "reference_price [] ?s = Some 100"
    by (simp add: reference_price_eq sp statistics_median_def)
  have m: "statistics_mean [10, 100, 190] = 100"
    by (simp add: statistics_mean_def)
  have v: "statistics_variance [10, 100, 190] = 8100"
    by (simp add: statistics_variance_def m)
  have spread: "statistics_stdev [10, 100, 190] / statistics_mean [10, 100, 190] > 5 / 10"
    by (subst cv_gt_half) (simp_all add: m v)
  have st: "sell_through ms = ?st" by (rule analyze_prices_sell_through[OF ms])
  have pct: "sell_through_pct ?st = Some 10" and liq: "liquidity ?st = ''dead''"
    by (simp_all add: calc_sell_through_def calc_liquidity_def Let_def round_nd_def py_round_def)
  have rc: "calculate_recommendation (Some 100) [10, 100, 190] ?st = Inr (recommendation ms)"
    using analyze_prices_recommendation[OF ms] by (simp add: ref sp)
  have ne: "(100::real) \<noteq> 0" by simp
  have mn: "3 \<le> length [10, 100, 190::real] \<longrightarrow> statistics_mean [10, 100, 190] \<noteq> 0"
    by (simp add: m)
  from calculate_recommendation_fields[OF ne mn, of ?st]
  obtain rc' where rc': "calculate_recommendation (Some 100) [10, 100, 190] ?st = Inr rc'"
    and f: "let net = 100 * (1 - 13 / 100) - 7;
          base = net / (140 / 100);
          spread = (3 \<le> length [10, 100, 190::real]
                    \<and> statistics_stdev [10, 100, 190] / statistics_mean [10, 100, 190] > 5 / 10);
          mb1 = (if spread then base * (8 / 10) else base);
          mb2 = (if liquidity ?st = ''dead'' then mb1 * (6 / 10)
                 else if liquidity ?st = ''slow'' then mb1 * (85 / 100) else mb1)
      in roi_percent rc' = Some (if mb2 > 0 then round_nd 1 ((net - mb2) / mb2 * 100) else 0)
       \<and> confidence rc' = (if 10 \<le> length [10, 100, 190::real] then ''high''
                           else if 5 \<le> length [10, 100, 190::real] then ''medium'' else ''low'')
       \<and> (spread_warning rc' \<noteq> None \<longleftrightarrow> spread)
       \<and> (liquidity_warning rc' \<noteq> None \<longleftrightarrow> liquidity ?st = ''dead'' \<or> liquidity ?st = ''slow'')"
    unfolding Let_def by blast
  have eq: "rc' = recommendation ms" using rc rc' by simp
  have sprd: "(3 \<le> length [10, 100, 190::real]
                    \<and> statistics_stdev [10, 100, 190] / statistics_mean [10, 100, 190] > 5 / 10) = True"
    using spread by simp
  from f show "roi_percent (recommendation ms) = Some (1917 / 10)"
    and "confidence (recommendation ms) = ''low''"
    and "spread_warning (recommendation ms) \<noteq> None"
    and "liquidity_warning (recommendation ms) \<noteq> None"
    unfolding eq liq sprd Let_def
    by (simp_all add: round_nd_def py_round_def)
  show "sell_through_pct (sell_through ms) = Some 10" using st pct by simp
qed

theorem deal_score_tiers_witness:
  "reference_price [] [] = None
   \<and> map_sum id (verdict \<circ> deal_score) (analyze_prices never_parses [] [] 0 0 0) = Inr ''NO DATA''
   \<and> map_sum id (score \<circ> deal_score) (analyze_prices never_parses [] [] 0 0 0) = Inr 0
   \<and> reference_price [] (priced [10, 100, 190]) \<noteq> None \<and> (0::int) \<le> 10
   \<and> map_sum id (verdict \<circ> deal_score)
        (analyze_prices never_parses [] (priced [10, 100, 190]) 0 10 100) = Inr ''OKAY''
   \<and> map_sum id (score \<circ> deal_score)
        (analyze_prices never_parses [] (priced [10, 100, 190]) 0 10 100) = Inr 52"
proof -
  let ?s = "priced [10, 100, 190]"
  have r0: "reference_price [] [] = None"
    by (simp add: reference_price_eq positive_prices_def)
  have r1: "reference_price [] ?s \<noteq> None"
    by (simp add: reference_price_eq positive_prices_priced)
  from deal_score_tiers[of "[]" "[]" never_parses 0 0 0] r0
  obtain ms0 where "analyze_prices never_parses [] [] 0 0 0 = Inr ms0"
    and "score (deal_score ms0) = 0" and "verdict (deal_score ms0) = ''NO DATA''"
    by blast
  then have a: "map_sum id (verdict \<circ> deal_score) (analyze_prices never_parses [] [] 0 0 0) = Inr ''NO DATA''
      \<and> map_sum id (score \<circ> deal_score) (analyze_prices never_parses [] [] 0 0 0) = Inr 0"
    by simp
  from deal_score_tiers[of "[]" ?s never_parses 0 10 100] r1
  obtain ms roi where ms: "analyze_prices never_parses [] ?s 0 10 100 = Inr ms"
    and roi: "roi_percent (recommendation ms) = Some roi"
    and f: "let rc = recommendation ms; st = sell_through ms; ds = deal_score ms;
                 p = (if roi \<ge> 100 then 100 else if roi \<ge> 60 then 80
                      else if roi \<ge> 40 then 60 else if roi \<ge> 20 then 40 else max roi 0);
                 dm = (case sell_through_pct st of
                         Some q \<Rightarrow> min (15 / 10 * q) 100
                       | None \<Rightarrow> if liquidity st = ''hot'' then 80
                                 else if liquidity st = ''steady'' then 55 else 30);
                 c = (if confidence rc = ''high'' then 100
                      else if confidence rc = ''medium'' then 60 else 25);
                 k = max (80 - (if spread_warning rc \<noteq> None then 30 else 0)
                             - (if liquidity_warning rc \<noteq> None then 20 else 0)) 0;
                 comp = 40 / 100 * p + 35 / 100 * dm + 15 / 100 * c + 10 / 100 * k
             in score ds = py_round comp
              \<and> (verdict ds = ''OKAY'' \<longleftrightarrow> 35 \<le> comp \<and> comp < 55)"
    unfolding Let_def by blast
  have roiv: "roi = 1917 / 10" using roi sample_summary(1)[OF ms] by simp
  have "score (deal_score ms) = 52 \<and> verdict (deal_score ms) = ''OKAY''"
    using f unfolding Let_def roiv sample_summary(2,5)[OF ms]
    using sample_summary(3,4)[OF ms]
    by (simp add: py_round_def)
  with ms a r0 r1 show ?thesis by simp
qed

subsection \<open>The monetary figures of a summary\<close>



lemma round_nd_zero [simp]: "round_nd n 0 = 0"
  by (simp add: round_nd_def py_round_def)







subsection \<open>Scanning one watch query\<close>










lemma scan_one_query_cases:
  "scan_one_query gen d wq (Inr (items, ta)) sold_result rows =
     (if items = [] then Inr \<lparr> db_rows = rows, new_count = 0, attempts = [] \<rparr>
      else case analyze_prices d items (fst (or_empty sold_result)) ta
                  (snd (or_empty sold_result)) (snd (or_empty sold_result)) of
             Inl e \<Rightarrow> Inl e
           | Inr pricing \<Rightarrow>
               Inr (scan_items gen wq (estimated_sell_price (recommendation pricing))
                      (deal_score pricing) items
                      \<lparr> db_rows = rows, new_count = 0, attempts = [] \<rparr>))"
  by (simp add: scan_one_query_def Let_def split: prod.splits)

lemma scan_one_query_total:
  "\<exists>st. scan_one_query gen d wq (Inr (items, ta)) sold_result rows = Inr st"
proof -
  obtain ms where "analyze_prices d items (fst (or_empty sold_result)) ta
                   (snd (or_empty sold_result)) (snd (or_empty sold_result)) = Inr ms"
    using analyze_prices_total by blast
  then show ?thesis by (simp add: scan_one_query_cases)
qed


lemma positive_prices_camera: "positive_prices camera_listings = [20, 30, 45, 60, 80]"
  by (simp add: positive_prices_def camera_listings_def sample_listing_def)

lemma extract_ebay_id_camera:
  "extract_ebay_id ''https://www.ebay.com/itm/101'' = ''101''"
  "extract_ebay_id ''https://www.ebay.com/itm/102?hash=a'' = ''102''"
  "extract_ebay_id ''https://www.ebay.com/itm/vintage/103'' = ''103''"
  by (simp_all add: extract_ebay_id_def isdigit_def Let_def)

lemma camera_no_sold_summary:
  assumes ms: "analyze_prices never_parses camera_listings [] 5 0 0 = Inr ms"
  shows "estimated_sell_price (recommendation ms) = Some 45"
    and "score (deal_score ms) = 46"
    and "verdict (deal_score ms) = ''OKAY''"
proof -
  let ?st = "calc_sell_through never_parses [] 0 0 5"
  let ?rc = "recommendation ms"
  have sp: "positive_prices [] = []" by (simp add: positive_prices_def)
  have ref: "reference_price camera_listings [] = Some 45"
    by (simp add: reference_price_eq sp positive_prices_camera statistics_median_def)
  have st: "sell_through ms = ?st" by (rule analyze_prices_sell_through[OF ms])
  have pct: "sell_through_pct ?st = None" and liq: "liquidity ?st = ''unknown''"
    by (simp_all add: calc_sell_through_def calc_liquidity_def Let_def)
  have rc: "calculate_recommendation (Some 45) [] ?st = Inr ?rc"
    using analyze_prices_recommendation[OF ms] by (simp add: ref sp)
  have ne: "(45::real) \<noteq> 0" and mn: "3 \<le> length ([]::real list) \<longrightarrow> statistics_mean [] \<noteq> 0"
    by simp_all
  from calculate_recommendation_fields[OF ne mn, of ?st]
  obtain rc' where rc': "calculate_recommendation (Some 45) [] ?st = Inr rc'"
    and f: "let net = 45 * (1 - 13 / 100) - 7;
          base = net / (140 / 100);
          spread = (3 \<le> length ([]::real list)
                    \<and> statistics_stdev [] / statistics_mean [] > 5 / 10);
          mb1 = (if spread then base * (8 / 10) else base);
          mb2 = (if liquidity ?st = ''dead'' then mb1 * (6 / 10)
                 else if liquidity ?st = ''slow'' then mb1 * (85 / 100) else mb1)
      in estimated_sell_price rc' = Some (round_nd 2 45)
       \<and> max_buy_price rc' = Some (round_nd 2 (max mb2 0))
       \<and> estimated_profit rc' = Some (round_nd 2 (max (net - mb2) 0))
       \<and> roi_percent rc' = Some (if mb2 > 0 then round_nd 1 ((net - mb2) / mb2 * 100) else 0)
       \<and> confidence rc' = (if 10 \<le> length ([]::real list) then ''high''
                           else if 5 \<le> length ([]::real list) then ''medium'' else ''low'')
       \<and> (truthy (spread_warning rc') \<longleftrightarrow> spread)
       \<and> (truthy (liquidity_warning rc') \<longleftrightarrow> liquidity ?st = ''dead'' \<or> liquidity ?st = ''slow'')"
    unfolding Let_def by blast
  have eq: "rc' = ?rc" using rc rc' by simp
  from f have es: "estimated_sell_price ?rc = Some 45"
    and mb: "max_buy_price ?rc \<noteq> None" and ep: "estimated_profit ?rc \<noteq> None"
    and roi: "roi_percent ?rc = Some 40"
    and conf: "confidence ?rc = ''low''"
    and sw: "\<not> truthy (spread_warning ?rc)" and lw: "\<not> truthy (liquidity_warning ?rc)"
    unfolding eq liq Let_def by (simp_all add: round_nd_def py_round_def)
  have ds: "calculate_deal_score ?rc ?st = Inr (deal_score ms)"
    using analyze_prices_total[of never_parses camera_listings "[]" 5 0 0] ms by auto
  from calculate_deal_score_fields[OF mb ep roi, of ?st] ds
  have "score (deal_score ms) = py_round (composite_score (profit_score 40)
            (str_score (sell_through_pct ?st) (liquidity ?st))
            (conf_score (confidence ?rc)) (risk_score ?rc))"
    and "verdict (deal_score ms) = fst (verdict_of (composite_score (profit_score 40)
            (str_score (sell_through_pct ?st) (liquidity ?st))
            (conf_score (confidence ?rc)) (risk_score ?rc)))"
    unfolding Let_def by auto
  then show "score (deal_score ms) = 46" and "verdict (deal_score ms) = ''OKAY''"
    unfolding pct liq conf
    using sw lw
    by (simp_all add: profit_score_def str_score_def conf_score_def risk_score_def
          composite_score_def verdict_of_def py_round_def Let_def)
  show "estimated_sell_price ?rc = Some 45" by (rule es)
qed




subsection \<open>A scan without sold listings\<close>

lemma camera_scan_no_sold:
  assumes "scan_one_query sample_gen never_parses camera_watch
             (Inr (camera_listings, 5)) (Inl e) [] = Inr st"
  shows "new_count st = 1"
    and "map opp_ebay_item_id (attempts st) = [Some ''101'']"
    and "map opp_estimated_profit (attempts st) = [1215 / 100]"
    and "map opp_deal_score (attempts st) = [51]"
    and "map opp_ebay_item_id (db_rows st) = [Some ''101'']"
proof -
  obtain ms where ms: "analyze_prices never_parses camera_listings [] 5 0 0 = Inr ms"
    using analyze_prices_total by blast
  note s = camera_no_sold_summary[OF ms]
  have ne: "camera_listings \<noteq> []" by (simp add: camera_listings_def)
  have st: "st = scan_items sample_gen camera_watch (Some 45) (deal_score ms) camera_listings
                   \<lparr> db_rows = [], new_count = 0, attempts = [] \<rparr>"
    using assms ms ne s(1) by (simp add: scan_one_query_cases)
  have ev: "scan_items sample_gen camera_watch (Some 45) (deal_score ms) camera_listings
              \<lparr> db_rows = [], new_count = 0, attempts = [] \<rparr>
            = scan_item sample_gen camera_watch (Some 45) (deal_score ms)
                (sample_listing ''camera 1'' (Some 20) ''https://www.ebay.com/itm/101'')
                \<lparr> db_rows = [], new_count = 0, attempts = [] \<rparr>"
    by (simp add: camera_listings_def scan_item_def sample_listing_def camera_watch_def
          item_score_of_def s Let_def)
  show "new_count st = 1"
    and "map opp_ebay_item_id (attempts st) = [Some ''101'']"
    and "map opp_estimated_profit (attempts st) = [1215 / 100]"
    and "map opp_deal_score (attempts st) = [51]"
    and "map opp_ebay_item_id (db_rows st) = [Some ''101'']"
    unfolding st ev
    by (simp_all add: scan_item_def sample_listing_def camera_watch_def item_score_of_def
          item_verdict_of_def s Let_def extract_ebay_id_camera sample_gen_def
          add_opportunity_def insert_or_ignore_def conflicts_def get_opportunity_def
          opp_data.defs round_nd_def py_round_def)
qed

text \<open>
  Claim C10.  When the fetch of the sold listings fails and that of the active listings
  succeeds, the scan returns the same as for an empty sold result with total 0:
  \<open>analyze_prices\<close> runs on no sold listings with \<open>total_sold = total_completed = 0\<close>, its
  reference price is the median asking price, and the loop over the active listings runs
  with the estimate and the score so obtained.  Such a scan can store an opportunity.
\<close>

theorem scan_without_sold:
  "scan_one_query gen d wq (Inr (items, ta)) (Inl e) rows
     = scan_one_query gen d wq (Inr (items, ta)) (Inr ([], 0)) rows
   \<and> (\<exists>st. scan_one_query gen d wq (Inr (items, ta)) (Inl e) rows = Inr st
        \<and> (items \<noteq> [] \<longrightarrow>
             (\<exists>ms. analyze_prices d items [] ta 0 0 = Inr ms
                \<and> st = scan_items gen wq (estimated_sell_price (recommendation ms))
                         (deal_score ms) items
                         \<lparr> db_rows = rows, new_count = 0, attempts = [] \<rparr>
                \<and> sold_listings_count ms = 0
                \<and> total_sold_recently (sell_through ms) = 0
                \<and> total_completed_recently (sell_through ms) = 0
                \<and> reference_price items [] =
                    (if positive_prices items = [] then None
                     else Some (statistics_median (positive_prices items)))
                \<and> estimated_sell_price (recommendation ms) =
                    (if positive_prices items = [] then None
                     else Some (round_nd 2 (statistics_median (positive_prices items)))))))
   \<and> (\<exists>gen' d' wq' items' ta' st.
         scan_one_query gen' d' wq' (Inr (items', ta')) (Inl e) [] = Inr st \<and> 0 < new_count st)"
proof (intro conjI)
  show "scan_one_query gen d wq (Inr (items, ta)) (Inl e) rows
     = scan_one_query gen d wq (Inr (items, ta)) (Inr ([], 0)) rows"
    by (simp add: scan_one_query_cases)
  obtain ms where ms: "analyze_prices d items [] ta 0 0 = Inr ms"
    using analyze_prices_total by blast
  let ?st = "calc_sell_through d [] 0 0 ta"
  let ?rc = "recommendation ms"
  have sp: "positive_prices [] = []" by (simp add: positive_prices_def)
  have ref: "reference_price items [] =
                    (if positive_prices items = [] then None
                     else Some (statistics_median (positive_prices items)))"
    by (simp add: reference_price_eq sp)
  have cnt: "sold_listings_count ms = 0"
    using ms by (auto simp: analyze_prices_def Let_def sp split: sum.splits)
  have st: "total_sold_recently (sell_through ms) = 0
        \<and> total_completed_recently (sell_through ms) = 0"
    using analyze_prices_sell_through[OF ms] by (simp add: calc_sell_through_def Let_def)
  have rc: "calculate_recommendation (reference_price items []) [] ?st = Inr ?rc"
    using analyze_prices_recommendation[OF ms] by (simp add: sp)
  have es: "estimated_sell_price ?rc =
                    (if positive_prices items = [] then None
                     else Some (round_nd 2 (statistics_median (positive_prices items))))"
  proof (cases "positive_prices items = []")
    case True
    with rc ref have "?rc = no_recommendation" by simp
    with True show ?thesis by (simp add: no_recommendation_def)
  next
    case False
    let ?r = "statistics_median (positive_prices items)"
    have r: "reference_price items [] = Some ?r" using ref False by simp
    have r0: "?r \<noteq> 0" using reference_price_pos[OF r] by simp
    have mn: "3 \<le> length ([]::real list) \<longrightarrow> statistics_mean [] \<noteq> 0" by simp
    from calculate_recommendation_fields[OF r0 mn, of ?st] rc r
    have "estimated_sell_price ?rc = Some (round_nd 2 ?r)"
      unfolding Let_def by auto
    with False show ?thesis by simp
  qed
  show "\<exists>st. scan_one_query gen d wq (Inr (items, ta)) (Inl e) rows = Inr st
        \<and> (items \<noteq> [] \<longrightarrow>
             (\<exists>ms. analyze_prices d items [] ta 0 0 = Inr ms
                \<and> st = scan_items gen wq (estimated_sell_price (recommendation ms))
                         (deal_score ms) items
                         \<lparr> db_rows = rows, new_count = 0, attempts = [] \<rparr>
                \<and> sold_listings_count ms = 0
                \<and> total_sold_recently (sell_through ms) = 0
                \<and> total_completed_recently (sell_through ms) = 0
                \<and> reference_price items [] =
                    (if positive_prices items = [] then None
                     else Some (statistics_median (positive_prices items)))
                \<and> estimated_sell_price (recommendation ms) =
                    (if positive_prices items = [] then None
                     else Some (round_nd 2 (statistics_median (positive_prices items))))))"
  proof (cases "items = []")
    case True
    then show ?thesis by (simp add: scan_one_query_cases)
  next
    case False
    have "scan_one_query gen d wq (Inr (items, ta)) (Inl e) rows
          = Inr (scan_items gen wq (estimated_sell_price ?rc) (deal_score ms) items
                   \<lparr> db_rows = rows, new_count = 0, attempts = [] \<rparr>)"
      using False ms by (simp add: scan_one_query_cases)
    with ms cnt st ref es show ?thesis by blast
  qed
  obtain st' where st': "scan_one_query sample_gen never_parses camera_watch
             (Inr (camera_listings, 5)) (Inl e) [] = Inr st'"
    using scan_one_query_total by blast
  from camera_scan_no_sold(1)[OF st'] st'
  show "\<exists>gen' d' wq' items' ta' st.
         scan_one_query gen' d' wq' (Inr (items', ta')) (Inl e) [] = Inr st \<and> 0 < new_count st"
    by (intro exI[of _ sample_gen] exI[of _ never_parses] exI[of _ camera_watch]
          exI[of _ camera_listings] exI[of _ 5] exI[of _ st']) simp
qed

theorem scan_without_sold_witness:
  "camera_listings \<noteq> []
   \<and> map_sum id new_count
       (scan_one_query sample_gen never_parses camera_watch
          (Inr (camera_listings, 5)) (Inl RequestError) []) = Inr 1
   \<and> map_sum id (map opp_ebay_item_id \<circ> attempts)
       (scan_one_query sample_gen never_parses camera_watch
          (Inr (camera_listings, 5)) (Inl RequestError) []) = Inr [Some ''101'']
   \<and> map_sum id (map opp_estimated_profit \<circ> attempts)
       (scan_one_query sample_gen never_parses camera_watch
          (Inr (camera_listings, 5)) (Inl RequestError) []) = Inr [1215 / 100]"
proof -
  have ne: "camera_listings \<noteq> []" by (simp add: camera_listings_def)
  from scan_without_sold[of sample_gen never_parses camera_watch camera_listings 5 RequestError "[]"]
  obtain st where st: "scan_one_query sample_gen never_parses camera_watch
          (Inr (camera_listings, 5)) (Inl RequestError) [] = Inr st"
    by blast
  from camera_scan_no_sold(1,2,3)[OF st] st ne show ?thesis by simp
qed

end
